theory Spec2Isabelle
  imports Main
begin

section \<open>Text: Python's str methods and SQLite's scalar functions\<close>

text \<open>
  The handlers of \<^verbatim>\<open>server.py\<close> normalise text twice, with two different libraries:
  in Python (\<^verbatim>\<open>str.strip\<close>, \<^verbatim>\<open>str.lower\<close>, used by \<^verbatim>\<open>norm_id\<close>) and inside the
  SQL statements (\<^verbatim>\<open>TRIM\<close>, \<^verbatim>\<open>LOWER\<close>, run by SQLite). Both are modelled, each as
  its library defines it.

  A \<^typ>\<open>char\<close> stands for a Unicode code point; the type has 256 values, so the model
  covers the strings over U+0000 .. U+00FF, on which all four functions are given
  exactly:
  \<^item> \<^verbatim>\<open>str.strip()\<close> removes leading and trailing characters for which
    \<^verbatim>\<open>str.isspace\<close> holds: U+0009..U+000D, U+001C..U+0020, U+0085, U+00A0;
  \<^item> \<^verbatim>\<open>str.lower()\<close> maps A..Z and the upper-case letters U+00C0..U+00DE (without
    the multiplication sign U+00D7) to the code point 32 above;
  \<^item> SQLite's \<^verbatim>\<open>TRIM(X)\<close> removes spaces (U+0020) only from both ends;
  \<^item> SQLite's built-in \<^verbatim>\<open>LOWER(X)\<close> converts the ASCII letters A..Z only.
\<close>

definition py_isspace :: "char \<Rightarrow> bool" where
  "py_isspace c =
     (let n = (of_char c :: nat)
      in (9 \<le> n \<and> n \<le> 13) \<or> (28 \<le> n \<and> n \<le> 32) \<or> n = 133 \<or> n = 160)"

definition py_strip :: "string \<Rightarrow> string" where
  "py_strip s = rev (dropWhile py_isspace (rev (dropWhile py_isspace s)))"

definition py_lower_char :: "char \<Rightarrow> char" where
  "py_lower_char c =
     (let n = (of_char c :: nat)
      in if (65 \<le> n \<and> n \<le> 90) \<or> (192 \<le> n \<and> n \<le> 222 \<and> n \<noteq> 215)
         then char_of (n + 32) else c)"

definition py_lower :: "string \<Rightarrow> string" where
  "py_lower s = map py_lower_char s"

definition sql_isspace :: "char \<Rightarrow> bool" where
  "sql_isspace c = (c = CHR '' '')"

definition sql_trim :: "string \<Rightarrow> string" where
  "sql_trim s = rev (dropWhile sql_isspace (rev (dropWhile sql_isspace s)))"

definition sql_lower_char :: "char \<Rightarrow> char" where
  "sql_lower_char c =
     (let n = (of_char c :: nat)
      in if 65 \<le> n \<and> n \<le> 90 then char_of (n + 32) else c)"

definition sql_lower :: "string \<Rightarrow> string" where
  "sql_lower s = map sql_lower_char s"

text \<open>\<^verbatim>\<open>def norm_id(s): return str(s).strip().lower() if s is not None else ''\<close>,
  on the strings it is called with.\<close>

definition norm_id :: "string \<Rightarrow> string" where
  "norm_id s = py_lower (py_strip s)"

text \<open>The expression \<^verbatim>\<open>LOWER(TRIM(col))\<close> of the SQL statements.\<close>

definition sql_norm :: "string \<Rightarrow> string" where
  "sql_norm s = sql_lower (sql_trim s)"

section \<open>The database\<close>

text \<open>
  The three tables the handlers use, with the columns of \<^verbatim>\<open>initialize_db\<close>. A table is the
  list of its rows in insertion order. Every \<^verbatim>\<open>id\<close> is
  \<^verbatim>\<open>INTEGER PRIMARY KEY AUTOINCREMENT\<close>: a new row gets an id one above the largest the
  table ever held, which SQLite keeps per table (here \<open>seq_*\<close>). The column
  \<^verbatim>\<open>attendance.course\<close> may be \<^verbatim>\<open>NULL\<close>; the others are \<^verbatim>\<open>NOT NULL\<close>.
\<close>

record attendance_row =
  att_id :: nat
  att_student_id :: string
  att_name :: string
  att_date :: string
  att_time :: string
  att_course :: "string option"

record course_row =
  crs_id :: nat
  crs_course_name :: string

record active_row =
  act_id :: nat
  act_course_id :: nat
  act_active_date :: string

record db =
  attendance :: "attendance_row list"
  courses :: "course_row list"
  active_course :: "active_row list"
  seq_attendance :: nat
  seq_courses :: nat
  seq_active :: nat

definition empty_db :: db where
  "empty_db = \<lparr>attendance = [], courses = [], active_course = [],
               seq_attendance = 0, seq_courses = 0, seq_active = 0\<rparr>"

definition next_rowid :: "nat \<Rightarrow> nat list \<Rightarrow> nat" where
  "next_rowid s ids = Suc (fold max ids s)"

text \<open>\<^verbatim>\<open>INSERT INTO attendance (student_id, name, date, time, course) VALUES (?, ?, ?, ?, ?)\<close>\<close>

definition insert_attendance :: "db \<Rightarrow> string \<Rightarrow> string \<Rightarrow> string \<Rightarrow> string \<Rightarrow> string \<Rightarrow> db" where
  "insert_attendance d sid nm day tm crs =
     (let i = next_rowid (seq_attendance d) (map att_id (attendance d))
      in d\<lparr>attendance := attendance d @
               [\<lparr>att_id = i, att_student_id = sid, att_name = nm, att_date = day,
                 att_time = tm, att_course = Some crs\<rparr>],
            seq_attendance := i\<rparr>)"

text \<open>
  \<^verbatim>\<open>SELECT 1 FROM attendance WHERE date = ? AND LOWER(TRIM(student_id)) = ?
     AND LOWER(TRIM(course)) = ? LIMIT 1\<close>, and whether \<^verbatim>\<open>fetchone()\<close> gives a row. A
  \<^verbatim>\<open>NULL\<close> course compares to nothing.
\<close>

definition attendance_match :: "string \<Rightarrow> string \<Rightarrow> string \<Rightarrow> attendance_row \<Rightarrow> bool" where
  "attendance_match day nid ncourse r =
     (att_date r = day \<and> sql_norm (att_student_id r) = nid \<and>
      (case att_course r of None \<Rightarrow> False | Some c \<Rightarrow> sql_norm c = ncourse))"

definition attendance_exists :: "db \<Rightarrow> string \<Rightarrow> string \<Rightarrow> string \<Rightarrow> bool" where
  "attendance_exists d day nid ncourse = list_ex (attendance_match day nid ncourse) (attendance d)"

text \<open>
  \<^verbatim>\<open>SELECT COUNT(DISTINCT student_id) AS cnt FROM attendance
     WHERE date = ? AND LOWER(TRIM(course)) = ?\<close>
\<close>

definition count_students :: "db \<Rightarrow> string \<Rightarrow> string \<Rightarrow> nat" where
  "count_students d day ncourse =
     length (remdups (map att_student_id
       (filter (\<lambda>r. att_date r = day \<and>
                     (case att_course r of None \<Rightarrow> False | Some c \<Rightarrow> sql_norm c = ncourse))
               (attendance d))))"

text \<open>
  \<^verbatim>\<open>SELECT a.course_id, c.course_name FROM active_course a
     JOIN courses c ON c.id = a.course_id
     WHERE a.active_date = ? ORDER BY a.id DESC LIMIT 1\<close>
  The joined rows, then the one with the largest \<^verbatim>\<open>a.id\<close>.
\<close>

definition active_joined :: "db \<Rightarrow> string \<Rightarrow> (active_row \<times> course_row) list" where
  "active_joined d day =
     concat (map (\<lambda>a. map (\<lambda>c. (a, c)) (filter (\<lambda>c. crs_id c = act_course_id a) (courses d)))
                 (filter (\<lambda>a. act_active_date a = day) (active_course d)))"

fun latest :: "(active_row \<times> course_row) \<Rightarrow> (active_row \<times> course_row) list \<Rightarrow> (active_row \<times> course_row)" where
  "latest best [] = best"
| "latest best (j # js) = latest (if act_id (fst best) < act_id (fst j) then j else best) js"

definition select_active :: "db \<Rightarrow> string \<Rightarrow> (nat \<times> string) option" where
  "select_active d day =
     (case active_joined d day of
        [] \<Rightarrow> None
      | j # js \<Rightarrow> (let (a, c) = latest j js in Some (act_course_id a, crs_course_name c)))"

section \<open>Requests, responses, notifications and the environment\<close>

text \<open>
  A field of the JSON body as the handlers read it with \<^verbatim>\<open>info.get(k)\<close>: absent or
  \<^verbatim>\<open>null\<close> (Python's \<^verbatim>\<open>None\<close>), a string, or a value of another JSON type, of which
  the handlers only see whether it is truthy. The body itself is a JSON object (or
  absent: \<^verbatim>\<open>request.get_json() or {}\<close>).
\<close>

datatype jval = JNull | JStr string | JOther bool

text \<open>
  The exceptions the handlers meet: \<^verbatim>\<open>AttributeError\<close> (a value without the method
  called on it), an error raised by SQLite for a statement (with its message), the
  violation of the \<^verbatim>\<open>UNIQUE\<close> constraint on \<^verbatim>\<open>courses.course_name\<close>
  (\<^verbatim>\<open>sqlite3.IntegrityError\<close>), and an error raised by \<^verbatim>\<open>socketio.emit\<close>.
\<close>

datatype error =
    Attribute_error
  | Storage_error string
  | Unique_course_name
  | Emit_failed string

text \<open>
  \<^verbatim>\<open>(v or default).strip()\<close>: a falsy value gives way to the default; a truthy value
  that is no string has no \<^verbatim>\<open>strip\<close>, and Python raises \<^verbatim>\<open>AttributeError\<close>.
\<close>

definition or_strip :: "jval \<Rightarrow> string \<Rightarrow> error + string" where
  "or_strip v dflt =
     (case v of
        JNull \<Rightarrow> Inr (py_strip dflt)
      | JStr s \<Rightarrow> Inr (py_strip (if s = [] then dflt else s))
      | JOther truthy \<Rightarrow> if truthy then Inl Attribute_error else Inr (py_strip dflt))"

text \<open>The dictionaries appended to \<^verbatim>\<open>inserted_records\<close>.\<close>

record scan_record =
  rec_ID :: string
  rec_Name :: string
  rec_Date :: string
  rec_Time :: string
  rec_Course :: string

text \<open>
  The events handed to \<^verbatim>\<open>socketio.emit\<close>: \<^verbatim>\<open>attendance_update\<close> (with the fixed body
  \<^verbatim>\<open>{'status': 'new record added'}\<close>), \<^verbatim>\<open>new_attendance\<close> (a record),
  \<^verbatim>\<open>attendance_count\<close> (course, count, date) and \<^verbatim>\<open>course_changed\<close> (course, mode,
  timestamp).
\<close>

datatype event =
    Attendance_update
  | New_attendance scan_record
  | Attendance_count string nat string
  | Course_changed string string string

text \<open>
  The statements a handler sends to SQLite, named by handler and place. Any of them
  can raise (\<^verbatim>\<open>sqlite3.Error\<close>: a locked or full database, an I/O error); the handlers
  catch that with \<^verbatim>\<open>except Exception\<close>.
\<close>

datatype stmt =
    Mark_select_active
  | Mark_select_general
  | Mark_insert_general
  | Mark_commit_general
  | Mark_select_course
  | Mark_insert_course
  | Mark_commit_course
  | Mark_select_count
  | Set_select_course
  | Set_insert_course
  | Set_select_active
  | Set_insert_active
  | Set_delete_active
  | Set_commit
  | Get_select_active

text \<open>
  What a call takes from outside the program: the clocks (\<^verbatim>\<open>datetime.now()\<close> in the
  server's zone, \<^verbatim>\<open>now_lagos()\<close>, \<^verbatim>\<open>datetime.utcnow()\<close>), which statement fails in
  this call and with what message (\<open>fault\<close>), and for which event \<^verbatim>\<open>socketio.emit\<close>
  raises (\<open>emit_error\<close>).
\<close>

record env =
  local_date :: string
  lagos_date :: string
  lagos_time :: string
  utc_now :: string
  fault :: "stmt \<Rightarrow> string option"
  emit_error :: "event \<Rightarrow> string option"

text \<open>Running a statement: its exception, if this call has one for it.\<close>

definition raises :: "env \<Rightarrow> stmt \<Rightarrow> error option" where
  "raises e s = map_option Storage_error (fault e s)"

section \<open>The handler of \<^verbatim>\<open>/mark_attendance\<close>\<close>

text \<open>
  The outcome messages, in place of their texts (which start with an emoji):
  \<^item> \<open>General_recorded\<close>: "General attendance recorded."
  \<^item> \<open>General_already\<close>: "General attendance already recorded today."
  \<^item> \<open>Course_recorded c\<close>: "Course attendance recorded for 'c'."
  \<^item> \<open>Course_already c\<close>: "Course attendance already recorded for 'c'."
\<close>

datatype outcome =
    General_recorded
  | General_already
  | Course_recorded string
  | Course_already string

text \<open>
  The four responses of the handler:
  \<^item> \<open>Invalid_format\<close>:
    \<^verbatim>\<open>{"success": False, "message": "Invalid QR content (expected 'id|name')"}, 400\<close>
  \<^item> \<open>Invalid_content e\<close>:
    \<^verbatim>\<open>{"success": False, "message": "Invalid QR content", "error": str(e)}, 400\<close>
  \<^item> \<open>Marked ms rs\<close>: \<^verbatim>\<open>{"success": True, "messages": ms, "inserted": rs}\<close>, 200
  \<^item> \<open>Mark_failed e\<close>:
    \<^verbatim>\<open>{"success": False, "message": "Failed to mark attendance", "error": str(e)}, 500\<close>
\<close>

datatype mark_response =
    Invalid_format
  | Invalid_content error
  | Marked "outcome list" "scan_record list"
  | Mark_failed error

fun mark_status :: "mark_response \<Rightarrow> nat" where
  "mark_status Invalid_format = 400"
| "mark_status (Invalid_content err) = 400"
| "mark_status (Marked ms rs) = 200"
| "mark_status (Mark_failed err) = 500"

fun mark_success :: "mark_response \<Rightarrow> bool" where
  "mark_success (Marked ms rs) = True"
| "mark_success r = False"

fun mark_message :: "mark_response \<Rightarrow> string option" where
  "mark_message Invalid_format = Some ''Invalid QR content (expected 'id|name')''"
| "mark_message (Invalid_content err) = Some ''Invalid QR content''"
| "mark_message (Marked ms rs) = None"
| "mark_message (Mark_failed err) = Some ''Failed to mark attendance''"

fun mark_error :: "mark_response \<Rightarrow> error option" where
  "mark_error (Invalid_content err) = Some err"
| "mark_error (Mark_failed err) = Some err"
| "mark_error r = None"

text \<open>\<^verbatim>\<open>student_id, name = map(str.strip, payload.split('|', 1))\<close>, for a payload with
  a separator.\<close>

definition split_payload :: "string \<Rightarrow> string \<times> string" where
  "split_payload payload =
     (py_strip (takeWhile (\<lambda>c. c \<noteq> CHR ''|'') payload),
      py_strip (drop 1 (dropWhile (\<lambda>c. c \<noteq> CHR ''|'') payload)))"

definition scan_rec :: "string \<Rightarrow> string \<Rightarrow> string \<Rightarrow> string \<Rightarrow> string \<Rightarrow> scan_record" where
  "scan_rec sid nm day tm crs =
     \<lparr>rec_ID = sid, rec_Name = nm, rec_Date = day, rec_Time = tm, rec_Course = crs\<rparr>"

text \<open>
  The block "General attendance check" (lines 527-543). It returns what it appends
  to \<^verbatim>\<open>messages\<close> and \<^verbatim>\<open>inserted_records\<close>, or the exception, and with either the
  database as committed when the block is left: the insert is followed by its own
  \<^verbatim>\<open>conn.commit()\<close>; an insert whose commit is not reached is dropped when the
  connection is closed.
\<close>

definition general_check ::
  "env \<Rightarrow> db \<Rightarrow> string \<Rightarrow> string \<Rightarrow> (error + outcome list \<times> scan_record list) \<times> db" where
  "general_check e d student_id name =
     (case raises e Mark_select_general of
        Some err \<Rightarrow> (Inl err, d)
      | None \<Rightarrow>
          if attendance_exists d (lagos_date e) (norm_id student_id) ''general''
          then (Inr ([General_already], []), d)
          else (case raises e Mark_insert_general of
                  Some err \<Rightarrow> (Inl err, d)
                | None \<Rightarrow>
                    (case raises e Mark_commit_general of
                       Some err \<Rightarrow> (Inl err, d)
                     | None \<Rightarrow>
                         (Inr ([General_recorded],
                               [scan_rec student_id name (lagos_date e) (lagos_time e) ''General'']),
                          insert_attendance d student_id name (lagos_date e) (lagos_time e)
                            ''General''))))"

text \<open>The block "Course attendance check" (lines 546-563), entered when a course is
  active; the parameter of its query is \<^verbatim>\<open>course_name.lower()\<close>.\<close>

definition course_check ::
  "env \<Rightarrow> db \<Rightarrow> string \<Rightarrow> string \<Rightarrow> string \<Rightarrow> (error + outcome list \<times> scan_record list) \<times> db" where
  "course_check e d student_id name course_name =
     (case raises e Mark_select_course of
        Some err \<Rightarrow> (Inl err, d)
      | None \<Rightarrow>
          if attendance_exists d (lagos_date e) (norm_id student_id) (py_lower course_name)
          then (Inr ([Course_already course_name], []), d)
          else (case raises e Mark_insert_course of
                  Some err \<Rightarrow> (Inl err, d)
                | None \<Rightarrow>
                    (case raises e Mark_commit_course of
                       Some err \<Rightarrow> (Inl err, d)
                     | None \<Rightarrow>
                         (Inr ([Course_recorded course_name],
                               [scan_rec student_id name (lagos_date e) (lagos_time e) course_name]),
                          insert_attendance d student_id name (lagos_date e) (lagos_time e)
                            course_name))))"

text \<open>
  The block "SocketIO notifications" (lines 566-579): the events that get out. The
  first \<^verbatim>\<open>emit\<close> that raises, or a failing count query, ends the block; the exception
  is logged and goes no further.
\<close>

definition emit_all :: "env \<Rightarrow> event list \<Rightarrow> event list" where
  "emit_all e evs = takeWhile (\<lambda>ev. emit_error e ev = None) evs"

definition notifications :: "env \<Rightarrow> db \<Rightarrow> scan_record list \<Rightarrow> string option \<Rightarrow> event list" where
  "notifications e d inserted_records active_name =
     (let sent = emit_all e (map New_attendance inserted_records)
      in if length sent < length inserted_records then sent
         else (case active_name of
                 None \<Rightarrow> sent
               | Some course_name \<Rightarrow>
                   (case raises e Mark_select_count of
                      Some err \<Rightarrow> sent
                    | None \<Rightarrow>
                        sent @ emit_all e
                          [Attendance_count course_name
                             (count_students d (lagos_date e) (py_lower course_name))
                             (lagos_date e)])))"

text \<open>
  The handler (lines 490-592). It returns the response, the database as committed
  when the connection is closed, and the events emitted.
\<close>

definition mark_attendance :: "env \<Rightarrow> db \<Rightarrow> jval \<Rightarrow> mark_response \<times> db \<times> event list" where
  "mark_attendance e d data_field =
     (case or_strip data_field [] of
        Inl err \<Rightarrow> (Invalid_content err, d, [])
      | Inr payload \<Rightarrow>
          if CHR ''|'' \<notin> set payload then
            (case emit_error e Attendance_update of
               Some err \<Rightarrow> (Invalid_content (Emit_failed err), d, [])
             | None \<Rightarrow> (Invalid_format, d, [Attendance_update]))
          else
            (let (student_id, name) = split_payload payload in
             case raises e Mark_select_active of
               Some err \<Rightarrow> (Mark_failed err, d, [])
             | None \<Rightarrow>
                 (let active = select_active d (lagos_date e) in
                  case general_check e d student_id name of
                    (Inl err, d1) \<Rightarrow> (Mark_failed err, d1, [])
                  | (Inr (messages1, inserted1), d1) \<Rightarrow>
                      (case active of
                         None \<Rightarrow>
                           (Marked messages1 inserted1, d1, notifications e d1 inserted1 None)
                       | Some (course_id, course_name) \<Rightarrow>
                           (case course_check e d1 student_id name course_name of
                              (Inl err, d2) \<Rightarrow> (Mark_failed err, d2, [])
                            | (Inr (messages2, inserted2), d2) \<Rightarrow>
                                (Marked (messages1 @ messages2) (inserted1 @ inserted2), d2,
                                 notifications e d2 (inserted1 @ inserted2) (Some course_name)))))))"

section \<open>The handlers of \<^verbatim>\<open>/set_course\<close> and \<^verbatim>\<open>/get_course\<close>\<close>

text \<open>What \<^verbatim>\<open>set_course\<close> reads of the Flask session: whether it has the key
  \<^verbatim>\<open>'user'\<close>, and its \<^verbatim>\<open>'role'\<close>.\<close>

record session =
  has_user :: bool
  role :: "string option"

text \<open>The two fields \<^verbatim>\<open>set_course\<close> reads of the JSON body.\<close>

record set_body =
  body_course :: jval
  body_mode :: jval

text \<open>
  The responses of \<^verbatim>\<open>set_course\<close>:
  \<^item> \<open>Unauthorized\<close>: \<^verbatim>\<open>{"message": "Unauthorized"}, 403\<close>
  \<^item> \<open>Course_required\<close>: \<^verbatim>\<open>{"message": "Course required for course mode"}, 400\<close>
  \<^item> \<open>Updated course mode\<close>:
    \<^verbatim>\<open>{"message": "Course and mode updated", "course": course, "mode": mode}\<close>, 200
  \<^item> \<open>Set_failed e\<close>: \<^verbatim>\<open>{"message": "Failed", "error": str(e)}, 500\<close>
  \<^item> \<open>Unhandled e\<close>: an exception raised outside the \<^verbatim>\<open>try\<close> leaves the handler, and
    Flask answers 500.
\<close>

datatype set_response =
    Unauthorized
  | Course_required
  | Updated string string
  | Set_failed error
  | Unhandled error

fun set_status :: "set_response \<Rightarrow> nat" where
  "set_status Unauthorized = 403"
| "set_status Course_required = 400"
| "set_status (Updated c m) = 200"
| "set_status (Set_failed err) = 500"
| "set_status (Unhandled err) = 500"

text \<open>
  Lines 366-372: \<^verbatim>\<open>SELECT id FROM courses WHERE LOWER(TRIM(course_name)) = ?\<close> with the
  parameter \<^verbatim>\<open>course.lower().strip()\<close>; \<^verbatim>\<open>fetchone()\<close> gives the first matching row,
  here in table order. Without one, \<^verbatim>\<open>INSERT INTO courses (course_name) VALUES (?)\<close>,
  which the \<^verbatim>\<open>UNIQUE\<close> constraint on \<^verbatim>\<open>course_name\<close> refuses when a row has exactly this
  name; \<^verbatim>\<open>course_id = cur.lastrowid\<close>. Returned: the course id and the database of
  the open transaction.
\<close>

definition insert_course :: "db \<Rightarrow> string \<Rightarrow> nat \<times> db" where
  "insert_course d cname =
     (let i = next_rowid (seq_courses d) (map crs_id (courses d))
      in (i, d\<lparr>courses := courses d @ [\<lparr>crs_id = i, crs_course_name = cname\<rparr>],
               seq_courses := i\<rparr>))"

definition resolve_course :: "env \<Rightarrow> db \<Rightarrow> string \<Rightarrow> error + nat \<times> db" where
  "resolve_course e d course =
     (case raises e Set_select_course of
        Some err \<Rightarrow> Inl err
      | None \<Rightarrow>
          (case find (\<lambda>c. sql_norm (crs_course_name c) = py_strip (py_lower course)) (courses d) of
             Some r \<Rightarrow> Inr (crs_id r, d)
           | None \<Rightarrow>
               (case raises e Set_insert_course of
                  Some err \<Rightarrow> Inl err
                | None \<Rightarrow>
                    if list_ex (\<lambda>c. crs_course_name c = course) (courses d)
                    then Inl Unique_course_name
                    else Inr (insert_course d course))))"

text \<open>
  Lines 375-377: \<^verbatim>\<open>SELECT 1 FROM active_course WHERE course_id = ? AND active_date = ?
  LIMIT 1\<close>, and \<^verbatim>\<open>INSERT INTO active_course (course_id, active_date) VALUES (?, ?)\<close>
  when it gives no row.
\<close>

definition insert_active :: "db \<Rightarrow> nat \<Rightarrow> string \<Rightarrow> db" where
  "insert_active d cid day =
     (let i = next_rowid (seq_active d) (map act_id (active_course d))
      in d\<lparr>active_course := active_course d @
               [\<lparr>act_id = i, act_course_id = cid, act_active_date = day\<rparr>],
            seq_active := i\<rparr>)"

definition active_exists :: "db \<Rightarrow> nat \<Rightarrow> string \<Rightarrow> bool" where
  "active_exists d cid day =
     list_ex (\<lambda>a. act_course_id a = cid \<and> act_active_date a = day) (active_course d)"

definition ensure_active :: "env \<Rightarrow> db \<Rightarrow> nat \<Rightarrow> string \<Rightarrow> error + db" where
  "ensure_active e d course_id today =
     (case raises e Set_select_active of
        Some err \<Rightarrow> Inl err
      | None \<Rightarrow>
          if active_exists d course_id today then Inr d
          else (case raises e Set_insert_active of
                  Some err \<Rightarrow> Inl err
                | None \<Rightarrow> Inr (insert_active d course_id today)))"

text \<open>Line 380 (and \<^verbatim>\<open>clear_course\<close>):
  \<^verbatim>\<open>DELETE FROM active_course WHERE active_date = ?\<close>\<close>

definition delete_active :: "db \<Rightarrow> string \<Rightarrow> db" where
  "delete_active d day =
     d\<lparr>active_course := filter (\<lambda>a. act_active_date a \<noteq> day) (active_course d)\<rparr>"

text \<open>
  Lines 382-389: \<^verbatim>\<open>conn.commit()\<close>, the \<^verbatim>\<open>course_changed\<close> event (in a \<^verbatim>\<open>try\<close> of
  its own, whose exception is dropped) and the response. \<open>d\<close> is the database
  before the call, to which a failing commit falls back (\<^verbatim>\<open>conn.rollback()\<close>), \<open>d'\<close>
  the one of the open transaction.
\<close>

definition commit_course :: "env \<Rightarrow> db \<Rightarrow> db \<Rightarrow> string \<Rightarrow> string \<Rightarrow> set_response \<times> db \<times> event list" where
  "commit_course e d d' course mode =
     (case raises e Set_commit of
        Some err \<Rightarrow> (Set_failed err, d, [])
      | None \<Rightarrow>
          (Updated course mode, d',
           emit_all e
             [Course_changed (if mode = ''course'' then course else []) mode (utc_now e)]))"

text \<open>
  The handler (lines 343-396). It returns the response, the database as committed
  when the connection is closed, and the events emitted. The two fields are read
  before the \<^verbatim>\<open>try\<close>; every exception inside it ends in \<^verbatim>\<open>conn.rollback()\<close> and the
  response \<open>Set_failed\<close>.
\<close>

definition set_course :: "env \<Rightarrow> session \<Rightarrow> set_body \<Rightarrow> db \<Rightarrow> set_response \<times> db \<times> event list" where
  "set_course e s info d =
     (if \<not> (has_user s \<and> role s = Some ''admin'') then (Unauthorized, d, [])
      else
        (case or_strip (body_course info) [] of
           Inl err \<Rightarrow> (Unhandled err, d, [])
         | Inr course \<Rightarrow>
             (case or_strip (body_mode info) ''general'' of
                Inl err \<Rightarrow> (Unhandled err, d, [])
              | Inr mode \<Rightarrow>
                  if mode = ''course'' then
                    if course = [] then (Course_required, d, [])
                    else
                      (case resolve_course e d course of
                         Inl err \<Rightarrow> (Set_failed err, d, [])
                       | Inr (course_id, d1) \<Rightarrow>
                           (case ensure_active e d1 course_id (local_date e) of
                              Inl err \<Rightarrow> (Set_failed err, d, [])
                            | Inr d2 \<Rightarrow> commit_course e d d2 course mode))
                  else
                    (case raises e Set_delete_active of
                       Some err \<Rightarrow> (Set_failed err, d, [])
                     | None \<Rightarrow>
                         commit_course e d (delete_active d (local_date e)) course mode))))"

text \<open>
  The response of \<^verbatim>\<open>get_course\<close>: the JSON object with the keys \<^verbatim>\<open>active\<close>,
  \<^verbatim>\<open>course\<close>, \<^verbatim>\<open>mode\<close> and \<^verbatim>\<open>course_id\<close> (\<open>None\<close> for \<^verbatim>\<open>null\<close>). Both \<^verbatim>\<open>return\<close>s
  of the handler and its \<^verbatim>\<open>except\<close> branch answer with \<^verbatim>\<open>jsonify(...)\<close> alone, that
  is with status 200.
\<close>

record get_response =
  resp_active :: bool
  resp_course :: string
  resp_mode :: string
  resp_course_id :: "nat option"

definition no_active_session :: get_response where
  "no_active_session =
     \<lparr>resp_active = False, resp_course = [], resp_mode = ''general'', resp_course_id = None\<rparr>"

definition get_course :: "env \<Rightarrow> db \<Rightarrow> nat \<times> get_response" where
  "get_course e d =
     (case raises e Get_select_active of
        Some err \<Rightarrow> (200, no_active_session)
      | None \<Rightarrow>
          (case select_active d (local_date e) of
             None \<Rightarrow> (200, no_active_session)
           | Some (cid, cname) \<Rightarrow>
               (200, \<lparr>resp_active = True, resp_course = cname, resp_mode = ''course'',
                      resp_course_id = Some cid\<rparr>)))"


section \<open>What the schema and the handlers keep of the tables\<close>

text \<open>
  Three properties of the tables \<^verbatim>\<open>courses\<close> and \<^verbatim>\<open>active_course\<close>:
  \<^item> the ids of \<^verbatim>\<open>active_course\<close> grow in insertion order
    (\<^verbatim>\<open>INTEGER PRIMARY KEY AUTOINCREMENT\<close>);
  \<^item> the ids of \<^verbatim>\<open>courses\<close> are distinct (\<^verbatim>\<open>PRIMARY KEY\<close>);
  \<^item> the course of every \<^verbatim>\<open>active_course\<close> row exists: \<^verbatim>\<open>set_course\<close> inserts such a
    row with the id of a course it has found or created, and no statement of the
    program deletes a course.
\<close>

definition db_ok :: "db \<Rightarrow> bool" where
  "db_ok d =
     (sorted_wrt (<) (map act_id (active_course d)) \<and>
      distinct (map crs_id (courses d)) \<and>
      list_all (\<lambda>a. list_ex (\<lambda>c. crs_id c = act_course_id a) (courses d)) (active_course d))"
section \<open>Concrete environments, databases and requests\<close>

text \<open>The inputs at which the theorems below are instantiated and the handlers are run.\<close>

text \<open>1 March 2024, 09:00 in Lagos; no statement fails and no \<^verbatim>\<open>emit\<close> raises.\<close>

definition quiet_env :: env where
  "quiet_env =
     \<lparr>local_date = ''2024-03-01'', lagos_date = ''2024-03-01'', lagos_time = ''09:00:00'',
      utc_now = ''2024-03-01T08:00:00'', fault = (\<lambda>s. None), emit_error = (\<lambda>ev. None)\<rparr>"

text \<open>The same day; the query of \<^verbatim>\<open>get_course\<close> fails.\<close>

definition locked_env :: env where
  "locked_env =
     quiet_env\<lparr>fault := (\<lambda>s. if s = Get_select_active then Some ''database is locked''
                              else None)\<rparr>"

text \<open>The course CS101, active on 1 March 2024; no attendance yet.\<close>

definition cs101_db :: db where
  "cs101_db =
     \<lparr>attendance = [],
      courses = [\<lparr>crs_id = 1, crs_course_name = ''CS101''\<rparr>],
      active_course = [\<lparr>act_id = 1, act_course_id = 1, act_active_date = ''2024-03-01''\<rparr>],
      seq_attendance = 0, seq_courses = 1, seq_active = 1\<rparr>"

definition admin_session :: session where
  "admin_session = \<lparr>has_user = True, role = Some ''admin''\<rparr>"


text \<open>Jane Doe, S100, after her first scan of that morning: her General row and her
  CS101 row.\<close>

definition jane_general :: attendance_row where
  "jane_general =
     \<lparr>att_id = 1, att_student_id = ''S100'', att_name = ''Jane Doe'',
      att_date = ''2024-03-01'', att_time = ''09:00:00'', att_course = Some ''General''\<rparr>"

definition jane_cs101 :: attendance_row where
  "jane_cs101 =
     \<lparr>att_id = 2, att_student_id = ''S100'', att_name = ''Jane Doe'',
      att_date = ''2024-03-01'', att_time = ''09:00:00'', att_course = Some ''CS101''\<rparr>"


definition cs101_scanned_db :: db where
  "cs101_scanned_db = cs101_db\<lparr>attendance := [jane_general, jane_cs101], seq_attendance := 2\<rparr>"




text \<open>The same morning; \<^verbatim>\<open>socketio.emit\<close> raises for the \<^verbatim>\<open>attendance_update\<close> event.\<close>

definition emit_fault_env :: env where
  "emit_fault_env =
     quiet_env\<lparr>emit_error := (\<lambda>ev. if ev = Attendance_update
                                    then Some ''unexpected keyword argument'' else None)\<rparr>"

text \<open>A student id with an upper-case letter outside ASCII: U+00C9 (E with acute) and the
  digit 1; \<open>accent_lower_id\<close> is the same id in lower case (U+00E9). Python's
  \<^verbatim>\<open>str.lower\<close> maps the first to the second; SQLite's \<^verbatim>\<open>LOWER\<close> leaves both as they
  are.\<close>

definition accent_id :: string where
  "accent_id = [CHR 0xC9, CHR ''1'']"

definition accent_lower_id :: string where
  "accent_lower_id = [CHR 0xE9, CHR ''1'']"

definition accent_row :: "nat \<Rightarrow> string \<Rightarrow> string \<Rightarrow> attendance_row" where
  "accent_row i sid crs =
     \<lparr>att_id = i, att_student_id = sid, att_name = ''Elodie'',
      att_date = ''2024-03-01'', att_time = ''09:00:00'', att_course = Some crs\<rparr>"

definition accent_rec :: "string \<Rightarrow> string \<Rightarrow> scan_record" where
  "accent_rec sid crs = scan_rec sid ''Elodie'' ''2024-03-01'' ''09:00:00'' crs"

text \<open>The database \<open>cs101_db\<close> after one scan of \<open>accent_id\<close>, after two such scans, and
  after one such scan followed by a scan of \<open>accent_lower_id\<close>.\<close>

definition accent_once_db :: db where
  "accent_once_db =
     cs101_db\<lparr>attendance := [accent_row 1 accent_id ''General'', accent_row 2 accent_id ''CS101''],
               seq_attendance := 2\<rparr>"

definition accent_twice_db :: db where
  "accent_twice_db =
     cs101_db\<lparr>attendance := [accent_row 1 accent_id ''General'', accent_row 2 accent_id ''CS101'',
                              accent_row 3 accent_id ''General'', accent_row 4 accent_id ''CS101''],
               seq_attendance := 4\<rparr>"

definition accent_mixed_db :: db where
  "accent_mixed_db =
     cs101_db\<lparr>attendance := [accent_row 1 accent_id ''General'', accent_row 2 accent_id ''CS101'',
                              accent_row 3 accent_lower_id ''General'',
                              accent_row 4 accent_lower_id ''CS101''],
               seq_attendance := 4\<rparr>"

text \<open>A course whose name is the one upper-case letter U+00C9, created and activated on
  1 March 2024 by \<^verbatim>\<open>set_course\<close> on the empty database.\<close>

definition accent_course :: string where
  "accent_course = [CHR 0xC9]"

definition accent_course_db :: db where
  "accent_course_db =
     \<lparr>attendance = [],
      courses = [\<lparr>crs_id = 1, crs_course_name = accent_course\<rparr>],
      active_course = [\<lparr>act_id = 1, act_course_id = 1, act_active_date = ''2024-03-01''\<rparr>],
      seq_attendance = 0, seq_courses = 1, seq_active = 1\<rparr>"

text \<open>The next day, 2 March 2024.\<close>

definition next_day_env :: env where
  "next_day_env =
     quiet_env\<lparr>local_date := ''2024-03-02'', lagos_date := ''2024-03-02'',
                utc_now := ''2024-03-02T08:00:00''\<rparr>"

text \<open>The database \<open>cs101_db\<close> without its active course.\<close>

definition cs101_cleared_db :: db where
  "cs101_cleared_db = cs101_db\<lparr>active_course := []\<rparr>"

text \<open>Two courses, made active on 1 March 2024 one after the other.\<close>

definition two_courses_db :: db where
  "two_courses_db =
     \<lparr>attendance = [],
      courses = [\<lparr>crs_id = 1, crs_course_name = ''CS101''\<rparr>,
                 \<lparr>crs_id = 2, crs_course_name = ''MTH202''\<rparr>],
      active_course = [\<lparr>act_id = 1, act_course_id = 1, act_active_date = ''2024-03-01''\<rparr>,
                       \<lparr>act_id = 2, act_course_id = 2, act_active_date = ''2024-03-01''\<rparr>],
      seq_attendance = 0, seq_courses = 2, seq_active = 2\<rparr>"
section \<open>The steps of \<^verbatim>\<open>mark_attendance\<close>\<close>

text \<open>What an insert changes, the outcomes of the two check-and-insert blocks, and the
  handler on a payload that has a separator.\<close>

lemma attendance_insert_attendance:
  "attendance (insert_attendance d sid nm day tm crs) =
     attendance d @ [\<lparr>att_id = next_rowid (seq_attendance d) (map att_id (attendance d)),
                     att_student_id = sid, att_name = nm, att_date = day, att_time = tm,
                     att_course = Some crs\<rparr>]"
  and courses_insert_attendance: "courses (insert_attendance d sid nm day tm crs) = courses d"
  and active_insert_attendance: "active_course (insert_attendance d sid nm day tm crs) = active_course d"
  by (simp_all add: insert_attendance_def Let_def)

lemma general_check_cases:
  assumes "general_check e d sid nm = (res, d1)"
  shows "(\<exists>s msg. s \<in> {Mark_select_general, Mark_insert_general, Mark_commit_general} \<and>
            fault e s = Some msg \<and> res = Inl (Storage_error msg) \<and> d1 = d) \<or>
         (attendance_exists d (lagos_date e) (norm_id sid) ''general'' \<and>
            res = Inr ([General_already], []) \<and> d1 = d) \<or>
         (\<not> attendance_exists d (lagos_date e) (norm_id sid) ''general'' \<and>
            res = Inr ([General_recorded], [scan_rec sid nm (lagos_date e) (lagos_time e) ''General'']) \<and>
            d1 = insert_attendance d sid nm (lagos_date e) (lagos_time e) ''General'')"
  using assms
  by (auto simp add: general_check_def raises_def split: option.splits if_splits)

lemma course_check_cases:
  assumes "course_check e d sid nm cn = (res, d1)"
  shows "(\<exists>s msg. s \<in> {Mark_select_course, Mark_insert_course, Mark_commit_course} \<and>
            fault e s = Some msg \<and> res = Inl (Storage_error msg) \<and> d1 = d) \<or>
         (attendance_exists d (lagos_date e) (norm_id sid) (py_lower cn) \<and>
            res = Inr ([Course_already cn], []) \<and> d1 = d) \<or>
         (\<not> attendance_exists d (lagos_date e) (norm_id sid) (py_lower cn) \<and>
            res = Inr ([Course_recorded cn], [scan_rec sid nm (lagos_date e) (lagos_time e) cn]) \<and>
            d1 = insert_attendance d sid nm (lagos_date e) (lagos_time e) cn)"
  using assms
  by (auto simp add: course_check_def raises_def split: option.splits if_splits)

lemma general_check_quiet:
  assumes "fault e Mark_select_general = None" "fault e Mark_insert_general = None" "fault e Mark_commit_general = None"
  shows "general_check e d sid nm =
     (if attendance_exists d (lagos_date e) (norm_id sid) ''general''
      then (Inr ([General_already], []), d)
      else (Inr ([General_recorded], [scan_rec sid nm (lagos_date e) (lagos_time e) ''General'']),
            insert_attendance d sid nm (lagos_date e) (lagos_time e) ''General''))"
  using assms by (simp add: general_check_def raises_def)

lemma course_check_quiet:
  assumes "fault e Mark_select_course = None" "fault e Mark_insert_course = None" "fault e Mark_commit_course = None"
  shows "course_check e d sid nm cn =
     (if attendance_exists d (lagos_date e) (norm_id sid) (py_lower cn)
      then (Inr ([Course_already cn], []), d)
      else (Inr ([Course_recorded cn], [scan_rec sid nm (lagos_date e) (lagos_time e) cn]),
            insert_attendance d sid nm (lagos_date e) (lagos_time e) cn))"
  using assms by (simp add: course_check_def raises_def)

lemma mark_attendance_valid:
  assumes "or_strip data_field [] = Inr payload" and "CHR ''|'' \<in> set payload"
    and "split_payload payload = (student_id, name)"
  shows "mark_attendance e d data_field =
     (case raises e Mark_select_active of
               Some err \<Rightarrow> (Mark_failed err, d, [])
             | None \<Rightarrow>
                  (case general_check e d student_id name of
                    (Inl err, d1) \<Rightarrow> (Mark_failed err, d1, [])
                  | (Inr (messages1, inserted1), d1) \<Rightarrow>
                      (case select_active d (lagos_date e) of
                         None \<Rightarrow>
                           (Marked messages1 inserted1, d1, notifications e d1 inserted1 None)
                       | Some (course_id, course_name) \<Rightarrow>
                           (case course_check e d1 student_id name course_name of
                              (Inl err, d2) \<Rightarrow> (Mark_failed err, d2, [])
                            | (Inr (messages2, inserted2), d2) \<Rightarrow>
                                (Marked (messages1 @ messages2) (inserted1 @ inserted2), d2,
                                 notifications e d2 (inserted1 @ inserted2) (Some course_name))))))"
  using assms by (cases "raises e Mark_select_active") (simp_all add: mark_attendance_def)

lemma mark_attendance_quiet:
  assumes "or_strip data_field [] = Inr payload" and "CHR ''|'' \<in> set payload"
    and "split_payload payload = (student_id, name)"
    and quiet: "\<And>s. fault e s = None"
  shows "mark_attendance e d data_field =
    (let day = lagos_date e; tm = lagos_time e; nid = norm_id student_id;
         ex_g = attendance_exists d day nid ''general'';
         d1 = (if ex_g then d else insert_attendance d student_id name day tm ''General'');
         m1 = [if ex_g then General_already else General_recorded];
         i1 = (if ex_g then [] else [scan_rec student_id name day tm ''General''])
     in case select_active d day of
          None \<Rightarrow> (Marked m1 i1, d1, notifications e d1 i1 None)
        | Some (cid, cn) \<Rightarrow>
           (let ex_c = attendance_exists d1 day nid (py_lower cn);
                d2 = (if ex_c then d1 else insert_attendance d1 student_id name day tm cn);
                m2 = [if ex_c then Course_already cn else Course_recorded cn];
                i2 = (if ex_c then [] else [scan_rec student_id name day tm cn])
            in (Marked (m1 @ m2) (i1 @ i2), d2, notifications e d2 (i1 @ i2) (Some cn))))"
  unfolding mark_attendance_valid [OF assms(1-3)]
  by (simp add: raises_def quiet general_check_quiet course_check_quiet Let_def
        split: option.splits)

lemma mark_attendance_shape:
  assumes "or_strip data_field [] = Inr payload" and "CHR ''|'' \<in> set payload"
    and "split_payload payload = (student_id, name)"
    and "mark_attendance e d data_field = (resp, d', evs)"
  shows "(\<exists>g c. attendance d' = attendance d @ g @ c \<and> length g \<le> 1 \<and> length c \<le> 1 \<and>
            list_all (\<lambda>r. att_student_id r = student_id \<and> att_date r = lagos_date e \<and>
                           att_course r = Some ''General'') g \<and>
            list_all (\<lambda>r. att_student_id r = student_id \<and> att_date r = lagos_date e \<and>
                           (\<exists>cid cn. select_active d (lagos_date e) = Some (cid, cn) \<and>
                                      att_course r = Some cn)) c) \<and>
         courses d' = courses d \<and> active_course d' = active_course d"
proof -
  let ?G = "\<lambda>r. att_student_id r = student_id \<and> att_date r = lagos_date e \<and>
                 att_course r = Some ''General''"
  let ?C = "\<lambda>r. att_student_id r = student_id \<and> att_date r = lagos_date e \<and>
                 (\<exists>cid cn. select_active d (lagos_date e) = Some (cid, cn) \<and>
                            att_course r = Some cn)"
  let ?P = "\<lambda>d' g c. attendance d' = attendance d @ g @ c \<and> length g \<le> 1 \<and> length c \<le> 1 \<and>
                      list_all ?G g \<and> list_all ?C c"
  note eq = assms(4) [unfolded mark_attendance_valid [OF assms(1-3)]]
  have "(\<exists>g c. ?P d' g c) \<and> courses d' = courses d \<and> active_course d' = active_course d"
    proof (cases "raises e Mark_select_active")
    case (Some err)
    with eq have "d' = d" by simp
    then have "?P d' [] []" by simp
    with \<open>d' = d\<close> show ?thesis by blast
  next
    case None
    obtain res1 d1 where g: "general_check e d student_id name = (res1, d1)"
      by (cases "general_check e d student_id name")
    from general_check_cases [OF g]
    obtain g1 where g1: "attendance d1 = attendance d @ g1" "length g1 \<le> 1" "list_all ?G g1"
      and g2: "courses d1 = courses d" "active_course d1 = active_course d"
      by (auto simp add: attendance_insert_attendance courses_insert_attendance
            active_insert_attendance)
    have stop: "?P d1 g1 []" using g1 by simp
    show ?thesis
    proof (cases res1)
      case (Inl err)
      with eq None g have "d' = d1" by simp
      with stop g2 show ?thesis by blast
    next
      case (Inr ok)
      obtain ms1 ins1 where ok: "ok = (ms1, ins1)" by (cases ok)
      show ?thesis
      proof (cases "select_active d (lagos_date e)")
        case None' : None
        with eq None g Inr ok have "d' = d1" by simp
        with stop g2 show ?thesis by blast
      next
        case (Some ac)
        obtain cid cn where ac: "ac = (cid, cn)" by (cases ac)
        obtain res2 d2 where c: "course_check e d1 student_id name cn = (res2, d2)"
          by (cases "course_check e d1 student_id name cn")
        from eq None g Inr ok Some ac c have d': "d' = d2"
          by (cases res2) (auto split: prod.splits)
        from course_check_cases [OF c] Some ac
        obtain c1 where c1: "attendance d2 = attendance d1 @ c1" "length c1 \<le> 1" "list_all ?C c1"
          and c2: "courses d2 = courses d1" "active_course d2 = active_course d1"
          by (auto simp add: attendance_insert_attendance courses_insert_attendance
                active_insert_attendance)
        have "?P d2 g1 c1" using g1 c1 by simp
        with d' g2 c2 show ?thesis by auto
      qed
    qed
  qed
  then show ?thesis .
qed

text \<open>The definitions a run of \<^verbatim>\<open>mark_attendance\<close> on a concrete request unfolds.\<close>

lemmas mark_eval =
  mark_attendance_def or_strip_def py_strip_def py_isspace_def split_payload_def raises_def
  select_active_def active_joined_def general_check_def course_check_def
  attendance_exists_def attendance_match_def sql_norm_def sql_trim_def sql_isspace_def
  sql_lower_def sql_lower_char_def norm_id_def py_lower_def py_lower_char_def
  notifications_def emit_all_def insert_attendance_def next_rowid_def scan_rec_def
  count_students_def Let_def char_of_def bit_iff_odd
section \<open>Rejected requests and the failing query of \<^verbatim>\<open>get_course\<close>\<close>

text \<open>
  Claim C4. A request to \<^verbatim>\<open>/mark_attendance\<close> whose payload (the \<^verbatim>\<open>data\<close> field, or the
  empty string in its place, stripped) has no \<^verbatim>\<open>'|'\<close> is answered with status 400 and
  \<^verbatim>\<open>success = False\<close>, by a message that starts with "Invalid QR content"; the
  database is left as it was. The generic \<^verbatim>\<open>attendance_update\<close> event is not emitted
  for every such request: the \<^verbatim>\<open>emit\<close> of line 496 stands inside the \<^verbatim>\<open>try\<close>, without a
  guard of its own. Where it does not raise, the event is emitted and the message is
  the one that names the expected format; where it raises, the \<^verbatim>\<open>except\<close> branch
  answers with the message "Invalid QR content" and the raised error, and no event
  is emitted.
\<close>

theorem malformed_payload_response:
  assumes "or_strip data_field [] = Inr payload"
    and "CHR ''|'' \<notin> set payload"
    and "mark_attendance e d data_field = (resp, d', evs)"
  shows "mark_status resp = 400 \<and> \<not> mark_success resp \<and>
         (\<exists>rest. mark_message resp = Some (''Invalid QR content'' @ rest)) \<and>
         d' = d \<and>
         (emit_error e Attendance_update = None \<longrightarrow>
            resp = Invalid_format \<and> evs = [Attendance_update] \<and>
            mark_message resp = Some ''Invalid QR content (expected 'id|name')'') \<and>
         (\<forall>msg. emit_error e Attendance_update = Some msg \<longrightarrow>
            resp = Invalid_content (Emit_failed msg) \<and> evs = [] \<and>
            mark_message resp = Some ''Invalid QR content'' \<and>
            mark_error resp = Some (Emit_failed msg))"
  using assms by (auto simp add: mark_attendance_def split: option.splits)

theorem malformed_payload_response_witness:
  "or_strip (JStr ''noSeparator'') [] = Inr ''noSeparator'' \<and>
   CHR ''|'' \<notin> set ''noSeparator'' \<and>
   emit_error emit_fault_env Attendance_update = Some ''unexpected keyword argument'' \<and>
   mark_attendance emit_fault_env cs101_db (JStr ''noSeparator'') =
     (Invalid_content (Emit_failed ''unexpected keyword argument''), cs101_db, []) \<and>
   mark_status (Invalid_content (Emit_failed ''unexpected keyword argument'')) = 400 \<and>
   mark_message (Invalid_content (Emit_failed ''unexpected keyword argument'')) =
     Some ''Invalid QR content'' \<and>
   emit_error quiet_env Attendance_update = None \<and>
   mark_attendance quiet_env cs101_db (JStr ''noSeparator'') =
     (Invalid_format, cs101_db, [Attendance_update])"
proof -
  have h1: "or_strip (JStr ''noSeparator'') [] = Inr ''noSeparator''"
    by (simp add: or_strip_def py_strip_def py_isspace_def)
  have h2: "CHR ''|'' \<notin> set ''noSeparator''"
    by simp
  have e1: "emit_error emit_fault_env Attendance_update = Some ''unexpected keyword argument''"
    by (simp add: emit_fault_env_def quiet_env_def)
  have e2: "emit_error quiet_env Attendance_update = None"
    by (simp add: quiet_env_def)
  obtain resp d' evs where
    r: "mark_attendance emit_fault_env cs101_db (JStr ''noSeparator'') = (resp, d', evs)"
    by (cases "mark_attendance emit_fault_env cs101_db (JStr ''noSeparator'')")
  from malformed_payload_response [OF h1 h2 r] e1
  have "resp = Invalid_content (Emit_failed ''unexpected keyword argument'')"
    and "d' = cs101_db" and "evs = []"
    by blast+
  with r have h3: "mark_attendance emit_fault_env cs101_db (JStr ''noSeparator'') =
     (Invalid_content (Emit_failed ''unexpected keyword argument''), cs101_db, [])"
    by simp
  have h4: "mark_attendance quiet_env cs101_db (JStr ''noSeparator'') =
              (Invalid_format, cs101_db, [Attendance_update])"
    by (simp add: mark_attendance_def h1 quiet_env_def)
  from h1 h2 h3 h4 e1 e2 show ?thesis by simp
qed

text \<open>
  Claim C8. For an admin's request to \<^verbatim>\<open>/set_course\<close> whose mode reads \<^verbatim>\<open>course\<close> and
  whose course name reads empty (the field absent, \<^verbatim>\<open>null\<close>, falsy, or blank), the
  handler answers \<open>Course_required\<close> (status 400), and the database is the one before
  the call. The answer is the same whatever statement would fail in this call (\<open>e\<close> is
  arbitrary): the check comes before the first statement.
\<close>

theorem empty_course_rejected:
  assumes "has_user s" and "role s = Some ''admin''"
    and "or_strip (body_mode info) ''general'' = Inr ''course''"
    and "or_strip (body_course info) [] = Inr []"
  shows "set_course e s info d = (Course_required, d, []) \<and> set_status Course_required = 400"
  using assms by (simp add: set_course_def)

theorem empty_course_rejected_witness:
  "has_user admin_session \<and> role admin_session = Some ''admin'' \<and>
   or_strip (JStr ''course'') ''general'' = Inr ''course'' \<and>
   or_strip JNull [] = Inr [] \<and>
   set_course locked_env admin_session \<lparr>body_course = JNull, body_mode = JStr ''course''\<rparr> cs101_db =
     (Course_required, cs101_db, [])"
proof -
  have h1: "has_user admin_session" and h2: "role admin_session = Some ''admin''"
    by (simp_all add: admin_session_def)
  have h3: "or_strip (body_mode \<lparr>body_course = JNull, body_mode = JStr ''course''\<rparr>) ''general''
              = Inr ''course''"
    by (simp add: or_strip_def py_strip_def py_isspace_def)
  have h4: "or_strip (body_course \<lparr>body_course = JNull, body_mode = JStr ''course''\<rparr>) [] = Inr []"
    by (simp add: or_strip_def py_strip_def)
  from empty_course_rejected [OF h1 h2 h3 h4, of locked_env cs101_db] h1 h2 h3 h4
  show ?thesis by simp
qed

text \<open>
  Claim C10. When the query of \<^verbatim>\<open>get_course\<close> raises, the handler answers with status
  200 and the body \<^verbatim>\<open>{active: false, course: "", mode: "general", course_id: null}\<close>:
  the very answer it gives, without a failure, for a day that has no active course.
\<close>

theorem get_course_storage_failure:
  assumes "fault e Get_select_active = Some msg"
  shows "get_course e d =
           (200, \<lparr>resp_active = False, resp_course = [], resp_mode = ''general'',
                  resp_course_id = None\<rparr>) \<and>
         (fault e' Get_select_active = None \<and> select_active d' (local_date e') = None
            \<longrightarrow> get_course e' d' = get_course e d)"
  using assms by (simp add: get_course_def raises_def no_active_session_def)

theorem get_course_storage_failure_witness:
  "fault locked_env Get_select_active = Some ''database is locked'' \<and>
   select_active cs101_db (local_date locked_env) = Some (1, ''CS101'') \<and>
   get_course locked_env cs101_db =
     (200, \<lparr>resp_active = False, resp_course = [], resp_mode = ''general'',
            resp_course_id = None\<rparr>) \<and>
   get_course quiet_env empty_db = get_course locked_env cs101_db"
proof -
  have h: "fault locked_env Get_select_active = Some ''database is locked''"
    by (simp add: locked_env_def quiet_env_def)
  have a: "select_active cs101_db (local_date locked_env) = Some (1, ''CS101'')"
    by (simp add: locked_env_def quiet_env_def cs101_db_def select_active_def active_joined_def)
  have q: "fault quiet_env Get_select_active = None \<and>
           select_active empty_db (local_date quiet_env) = None"
    by (simp add: quiet_env_def empty_db_def select_active_def active_joined_def)
  from get_course_storage_failure [OF h, of cs101_db quiet_env empty_db] h a q
  show ?thesis by simp
qed


section \<open>The rows a scan creates\<close>

text \<open>
  Claim C3. A valid scan (a payload with \<^verbatim>\<open>'|'\<close>, read as student id and name) adds to
  the table \<^verbatim>\<open>attendance\<close> at most one row of course \<^verbatim>\<open>General\<close> and after it at most
  one row of the course active that day, both for the scanned student and today, and
  nothing else: at most two rows, whatever fails during the call; the other tables are
  left as they are. When no statement fails, the call is the General
  check-and-insert, run whether or not a course is active, followed, when a course is
  active, by the check-and-insert for that course.
\<close>

theorem mark_attendance_rows:
  assumes "or_strip data_field [] = Inr payload" and "CHR ''|'' \<in> set payload"
    and "split_payload payload = (student_id, name)"
    and "mark_attendance e d data_field = (resp, d', evs)"
  shows "(\<exists>g c. attendance d' = attendance d @ g @ c \<and> length g \<le> 1 \<and> length c \<le> 1 \<and>
            list_all (\<lambda>r. att_student_id r = student_id \<and> att_date r = lagos_date e \<and>
                           att_course r = Some ''General'') g \<and>
            list_all (\<lambda>r. att_student_id r = student_id \<and> att_date r = lagos_date e \<and>
                           (\<exists>cid cn. select_active d (lagos_date e) = Some (cid, cn) \<and>
                                      att_course r = Some cn)) c) \<and>
         length (attendance d') \<le> length (attendance d) + 2 \<and>
         courses d' = courses d \<and> active_course d' = active_course d \<and>
         ((\<forall>s. fault e s = None) \<longrightarrow>
            (resp, d', evs) =
              (let day = lagos_date e; tm = lagos_time e; nid = norm_id student_id;
                   ex_g = attendance_exists d day nid ''general'';
                   d1 = (if ex_g then d else insert_attendance d student_id name day tm ''General'');
                   m1 = [if ex_g then General_already else General_recorded];
                   i1 = (if ex_g then [] else [scan_rec student_id name day tm ''General''])
               in case select_active d day of
                    None \<Rightarrow> (Marked m1 i1, d1, notifications e d1 i1 None)
                  | Some (cid, cn) \<Rightarrow>
                     (let ex_c = attendance_exists d1 day nid (py_lower cn);
                          d2 = (if ex_c then d1 else insert_attendance d1 student_id name day tm cn);
                          m2 = [if ex_c then Course_already cn else Course_recorded cn];
                          i2 = (if ex_c then [] else [scan_rec student_id name day tm cn])
                      in (Marked (m1 @ m2) (i1 @ i2), d2,
                          notifications e d2 (i1 @ i2) (Some cn)))))"
proof -
  note shape = mark_attendance_shape [OF assms]
  from shape obtain g c where "attendance d' = attendance d @ g @ c"
    and "length g \<le> 1" and "length c \<le> 1"
    by blast
  then have len: "length (attendance d') \<le> length (attendance d) + 2"
    by simp
  have run: "(\<forall>s. fault e s = None) \<longrightarrow>
            (resp, d', evs) =
              (let day = lagos_date e; tm = lagos_time e; nid = norm_id student_id;
                   ex_g = attendance_exists d day nid ''general'';
                   d1 = (if ex_g then d else insert_attendance d student_id name day tm ''General'');
                   m1 = [if ex_g then General_already else General_recorded];
                   i1 = (if ex_g then [] else [scan_rec student_id name day tm ''General''])
               in case select_active d day of
                    None \<Rightarrow> (Marked m1 i1, d1, notifications e d1 i1 None)
                  | Some (cid, cn) \<Rightarrow>
                     (let ex_c = attendance_exists d1 day nid (py_lower cn);
                          d2 = (if ex_c then d1 else insert_attendance d1 student_id name day tm cn);
                          m2 = [if ex_c then Course_already cn else Course_recorded cn];
                          i2 = (if ex_c then [] else [scan_rec student_id name day tm cn])
                      in (Marked (m1 @ m2) (i1 @ i2), d2,
                          notifications e d2 (i1 @ i2) (Some cn))))"
  proof
    assume "\<forall>s. fault e s = None"
    then have quiet: "\<And>s. fault e s = None" by simp
    show "(resp, d', evs) =
              (let day = lagos_date e; tm = lagos_time e; nid = norm_id student_id;
                   ex_g = attendance_exists d day nid ''general'';
                   d1 = (if ex_g then d else insert_attendance d student_id name day tm ''General'');
                   m1 = [if ex_g then General_already else General_recorded];
                   i1 = (if ex_g then [] else [scan_rec student_id name day tm ''General''])
               in case select_active d day of
                    None \<Rightarrow> (Marked m1 i1, d1, notifications e d1 i1 None)
                  | Some (cid, cn) \<Rightarrow>
                     (let ex_c = attendance_exists d1 day nid (py_lower cn);
                          d2 = (if ex_c then d1 else insert_attendance d1 student_id name day tm cn);
                          m2 = [if ex_c then Course_already cn else Course_recorded cn];
                          i2 = (if ex_c then [] else [scan_rec student_id name day tm cn])
                      in (Marked (m1 @ m2) (i1 @ i2), d2,
                          notifications e d2 (i1 @ i2) (Some cn))))"
      unfolding assms(4) [symmetric]
      by (rule mark_attendance_quiet [OF assms(1-3) quiet])
  qed
  from shape len run show ?thesis by blast
qed

theorem mark_attendance_rows_witness:
  "or_strip (JStr ''S100|Jane Doe'') [] = Inr ''S100|Jane Doe'' \<and>
   CHR ''|'' \<in> set ''S100|Jane Doe'' \<and>
   split_payload ''S100|Jane Doe'' = (''S100'', ''Jane Doe'') \<and>
   (\<forall>s. fault quiet_env s = None) \<and>
   mark_attendance quiet_env cs101_db (JStr ''S100|Jane Doe'') =
     (Marked [General_recorded, Course_recorded ''CS101'']
        [scan_rec ''S100'' ''Jane Doe'' ''2024-03-01'' ''09:00:00'' ''General'',
         scan_rec ''S100'' ''Jane Doe'' ''2024-03-01'' ''09:00:00'' ''CS101''],
      cs101_scanned_db,
      [New_attendance (scan_rec ''S100'' ''Jane Doe'' ''2024-03-01'' ''09:00:00'' ''General''),
       New_attendance (scan_rec ''S100'' ''Jane Doe'' ''2024-03-01'' ''09:00:00'' ''CS101''),
       Attendance_count ''CS101'' 1 ''2024-03-01'']) \<and>
   attendance cs101_scanned_db = attendance cs101_db @ [jane_general] @ [jane_cs101] \<and>
   length (attendance cs101_scanned_db) \<le> length (attendance cs101_db) + 2"
proof -
  have h1: "or_strip (JStr ''S100|Jane Doe'') [] = Inr ''S100|Jane Doe''"
    by (simp add: or_strip_def py_strip_def py_isspace_def)
  have h2: "CHR ''|'' \<in> set ''S100|Jane Doe''"
    by simp
  have h3: "split_payload ''S100|Jane Doe'' = (''S100'', ''Jane Doe'')"
    by (simp add: split_payload_def py_strip_def py_isspace_def)
  have h4: "mark_attendance quiet_env cs101_db (JStr ''S100|Jane Doe'') =
     (Marked [General_recorded, Course_recorded ''CS101'']
        [scan_rec ''S100'' ''Jane Doe'' ''2024-03-01'' ''09:00:00'' ''General'',
         scan_rec ''S100'' ''Jane Doe'' ''2024-03-01'' ''09:00:00'' ''CS101''],
      cs101_scanned_db,
      [New_attendance (scan_rec ''S100'' ''Jane Doe'' ''2024-03-01'' ''09:00:00'' ''General''),
       New_attendance (scan_rec ''S100'' ''Jane Doe'' ''2024-03-01'' ''09:00:00'' ''CS101''),
       Attendance_count ''CS101'' 1 ''2024-03-01''])"
    by (simp add: mark_eval quiet_env_def cs101_db_def cs101_scanned_db_def jane_general_def
          jane_cs101_def)
  have h5: "\<forall>s. fault quiet_env s = None"
    by (simp add: quiet_env_def)
  have h6: "attendance cs101_scanned_db = attendance cs101_db @ [jane_general] @ [jane_cs101]"
    by (simp add: cs101_scanned_db_def cs101_db_def)
  from mark_attendance_rows [OF h1 h2 h3 h4]
  have h7: "length (attendance cs101_scanned_db) \<le> length (attendance cs101_db) + 2"
    by blast
  from h1 h2 h3 h4 h5 h6 h7 show ?thesis by blast
qed

section \<open>A storage failure during a scan\<close>




section \<open>Scanning again\<close>

text \<open>The definitions of the example rows and databases.\<close>

lemmas accent_eval = accent_id_def accent_lower_id_def accent_row_def accent_rec_def
  accent_once_db_def accent_twice_db_def accent_mixed_db_def

text \<open>
  Where the two normalisations agree on the scanned id (and on the name of the active
  course), a scan repeated after a scan without failure finds the rows of the first:
  it inserts nothing and reports every block as already recorded. This is so for
  every id and course name whose upper-case letters are all ASCII.
\<close>

lemma attendance_exists_insert:
  "attendance_exists (insert_attendance d sid nm day tm crs) day' nid nc =
     (attendance_exists d day' nid nc \<or> (day = day' \<and> sql_norm sid = nid \<and> sql_norm crs = nc))"
  by (auto simp add: attendance_exists_def attendance_match_def attendance_insert_attendance
        list_ex_iff)

lemma select_active_insert_attendance:
  "select_active (insert_attendance d sid nm day tm crs) day' = select_active d day'"
  by (simp add: select_active_def active_joined_def courses_insert_attendance
        active_insert_attendance)

lemma sql_norm_General: "sql_norm ''General'' = ''general''"
  by (simp add: sql_norm_def sql_trim_def sql_isspace_def sql_lower_def sql_lower_char_def
        char_of_def bit_iff_odd)

lemma rescan_idempotent:
  assumes v1: "or_strip data_field [] = Inr payload" and v2: "CHR ''|'' \<in> set payload"
    and v3: "split_payload payload = (student_id, name)"
    and quiet: "\<And>s. fault e s = None"
    and first: "mark_attendance e d data_field = (resp1, d1, evs1)"
    and sid: "sql_norm student_id = norm_id student_id"
    and crs: "\<And>cid cn. select_active d (lagos_date e) = Some (cid, cn) \<Longrightarrow> sql_norm cn = py_lower cn"
  shows "\<exists>ms evs2. mark_attendance e d1 data_field = (Marked ms [], d1, evs2) \<and>
           ms = General_already #
             (case select_active d (lagos_date e) of None \<Rightarrow> []
              | Some (cid, cn) \<Rightarrow> [Course_already cn])"
proof -
  let ?day = "lagos_date e" and ?nid = "norm_id student_id"
  note q1 = mark_attendance_quiet [OF v1 v2 v3 quiet, of d]
  note q2 = mark_attendance_quiet [OF v1 v2 v3 quiet, of d1]
  show ?thesis
  proof (cases "select_active d ?day")
    case None
    from first [unfolded q1] None
    have d1: "d1 = (if attendance_exists d ?day ?nid ''general'' then d
                    else insert_attendance d student_id name ?day (lagos_time e) ''General'')"
      by (simp add: Let_def)
    then have g: "attendance_exists d1 ?day ?nid ''general''"
      by (simp add: attendance_exists_insert sid sql_norm_General)
    from d1 have a: "select_active d1 ?day = None"
      by (simp add: select_active_insert_attendance None)
    from g a None show ?thesis
      unfolding q2 by (simp add: Let_def)
  next
    case (Some ac)
    obtain cid cn where ac: "ac = (cid, cn)" by (cases ac)
    from crs Some ac have cn: "sql_norm cn = py_lower cn" by simp
    let ?dg = "if attendance_exists d ?day ?nid ''general'' then d
               else insert_attendance d student_id name ?day (lagos_time e) ''General''"
    from first [unfolded q1] Some ac
    have d1: "d1 = (if attendance_exists ?dg ?day ?nid (py_lower cn) then ?dg
                    else insert_attendance ?dg student_id name ?day (lagos_time e) cn)"
      by (simp add: Let_def)
    have "attendance_exists ?dg ?day ?nid ''general''"
      by (simp add: attendance_exists_insert sid sql_norm_General)
    with d1 have g: "attendance_exists d1 ?day ?nid ''general''"
      by (simp add: attendance_exists_insert)
    from d1 have c: "attendance_exists d1 ?day ?nid (py_lower cn)"
      by (simp add: attendance_exists_insert sid cn)
    from d1 have a: "select_active d1 ?day = Some (cid, cn)"
      by (simp add: select_active_insert_attendance Some ac)
    from g c a Some ac show ?thesis
      unfolding q2 by (simp add: Let_def)
  qed
qed

text \<open>
  Claim C1. The existence checks compare \<^verbatim>\<open>LOWER(TRIM(student_id))\<close>, computed by
  SQLite, with \<^verbatim>\<open>norm_id(student_id)\<close>, computed by Python. For S100 the second of two
  identical scans finds both rows of the first, inserts nothing and reports both as
  already recorded. For an id with an upper-case letter outside ASCII the two
  normalisations differ, the check of the second identical scan finds no row, and
  the scan inserts a second General row and a second row for the course: four rows
  after two identical scans, and both reported as recorded.
\<close>

theorem repeated_scan:
  "mark_attendance quiet_env cs101_scanned_db (JStr ''S100|Jane Doe'') =
     (Marked [General_already, Course_already ''CS101''] [], cs101_scanned_db,
      [Attendance_count ''CS101'' 1 ''2024-03-01'']) \<and>
   mark_attendance quiet_env cs101_db (JStr (accent_id @ ''|Elodie'')) =
     (Marked [General_recorded, Course_recorded ''CS101'']
        [accent_rec accent_id ''General'', accent_rec accent_id ''CS101''],
      accent_once_db,
      [New_attendance (accent_rec accent_id ''General''),
       New_attendance (accent_rec accent_id ''CS101''),
       Attendance_count ''CS101'' 1 ''2024-03-01'']) \<and>
   mark_attendance quiet_env accent_once_db (JStr (accent_id @ ''|Elodie'')) =
     (Marked [General_recorded, Course_recorded ''CS101'']
        [accent_rec accent_id ''General'', accent_rec accent_id ''CS101''],
      accent_twice_db,
      [New_attendance (accent_rec accent_id ''General''),
       New_attendance (accent_rec accent_id ''CS101''),
       Attendance_count ''CS101'' 1 ''2024-03-01'']) \<and>
   length (attendance accent_twice_db) = 4"
  by (simp add: mark_eval quiet_env_def cs101_db_def cs101_scanned_db_def jane_general_def
        jane_cs101_def accent_eval)

text \<open>
  Claim C7. The scan of \<^verbatim>\<open>" s100 "\<close> after the scan of \<^verbatim>\<open>"S100"\<close> finds the rows of
  the first and inserts nothing. The two ids \<open>accent_id\<close> and \<open>accent_lower_id\<close> differ
  in letter case only (\<^verbatim>\<open>norm_id\<close> gives the same for both); the scan of the second,
  with blanks around it, after the scan of the first does not find the rows of the
  first, and inserts a General row and a course row of its own. The count of
  students of the course that day is then 2.
\<close>

theorem case_variant_scan:
  "mark_attendance quiet_env cs101_scanned_db (JStr '' s100 |Jane Doe'') =
     (Marked [General_already, Course_already ''CS101''] [], cs101_scanned_db,
      [Attendance_count ''CS101'' 1 ''2024-03-01'']) \<and>
   norm_id accent_lower_id = norm_id accent_id \<and>
   mark_attendance quiet_env accent_once_db (JStr ('' '' @ accent_lower_id @ '' |Elodie'')) =
     (Marked [General_recorded, Course_recorded ''CS101'']
        [accent_rec accent_lower_id ''General'', accent_rec accent_lower_id ''CS101''],
      accent_mixed_db,
      [New_attendance (accent_rec accent_lower_id ''General''),
       New_attendance (accent_rec accent_lower_id ''CS101''),
       Attendance_count ''CS101'' 2 ''2024-03-01''])"
  by (simp add: mark_eval quiet_env_def cs101_db_def cs101_scanned_db_def jane_general_def
        jane_cs101_def accent_eval)

section \<open>Setting the course of the day\<close>

text \<open>The definitions a run of \<^verbatim>\<open>set_course\<close> on a concrete request unfolds.\<close>

lemmas set_eval =
  set_course_def or_strip_def py_strip_def py_isspace_def py_lower_def py_lower_char_def
  resolve_course_def ensure_active_def insert_course_def insert_active_def active_exists_def
  delete_active_def commit_course_def emit_all_def raises_def sql_norm_def sql_trim_def
  sql_isspace_def sql_lower_def sql_lower_char_def next_rowid_def Let_def char_of_def
  bit_iff_odd

text \<open>
  Claim C9, as the code has it. The mode the handler tests is
  \<^verbatim>\<open>(info.get('mode') or 'general').strip()\<close>. For an admin's request whose two fields
  can be read (each absent, \<^verbatim>\<open>null\<close>, falsy or a string) and whose mode so read is not
  \<^verbatim>\<open>course\<close>: when neither the \<^verbatim>\<open>DELETE\<close> nor the commit fails, the handler answers
  200 with the course and the mode as read, emits \<^verbatim>\<open>course_changed\<close> with an empty
  course, and leaves the database without an \<^verbatim>\<open>active_course\<close> row for today (so no
  course is active), the other rows and tables as they were; when one of the two
  statements fails it answers 500 and the database is the one before the call.
\<close>

theorem general_mode_clears:
  assumes "has_user s" and "role s = Some ''admin''"
    and "or_strip (body_course info) [] = Inr course"
    and "or_strip (body_mode info) ''general'' = Inr mode"
    and "mode \<noteq> ''course''"
  shows "(fault e Set_delete_active = None \<and> fault e Set_commit = None \<longrightarrow>
            set_course e s info d =
              (Updated course mode, delete_active d (local_date e),
               emit_all e [Course_changed [] mode (utc_now e)]) \<and>
            set_status (Updated course mode) = 200) \<and>
         (\<forall>msg. fault e Set_delete_active = Some msg \<longrightarrow>
            set_course e s info d = (Set_failed (Storage_error msg), d, [])) \<and>
         (\<forall>msg. fault e Set_delete_active = None \<and> fault e Set_commit = Some msg \<longrightarrow>
            set_course e s info d = (Set_failed (Storage_error msg), d, [])) \<and>
         active_course (delete_active d (local_date e)) =
           filter (\<lambda>a. act_active_date a \<noteq> local_date e) (active_course d) \<and>
         \<not> list_ex (\<lambda>a. act_active_date a = local_date e)
              (active_course (delete_active d (local_date e))) \<and>
         select_active (delete_active d (local_date e)) (local_date e) = None \<and>
         courses (delete_active d (local_date e)) = courses d \<and>
         attendance (delete_active d (local_date e)) = attendance d"
  using assms
  by (simp add: set_course_def commit_course_def raises_def delete_active_def
        select_active_def active_joined_def list_ex_iff)

theorem general_mode_clears_witness:
  "has_user admin_session \<and> role admin_session = Some ''admin'' \<and>
   or_strip (JStr ''CS101'') [] = Inr ''CS101'' \<and>
   or_strip JNull ''general'' = Inr ''general'' \<and>
   ''general'' \<noteq> ''course'' \<and>
   fault quiet_env Set_delete_active = None \<and> fault quiet_env Set_commit = None \<and>
   set_course quiet_env admin_session \<lparr>body_course = JStr ''CS101'', body_mode = JNull\<rparr> cs101_db =
     (Updated ''CS101'' ''general'', cs101_cleared_db,
      [Course_changed [] ''general'' ''2024-03-01T08:00:00''])"
proof -
  have h1: "has_user admin_session" and h2: "role admin_session = Some ''admin''"
    by (simp_all add: admin_session_def)
  have h3: "or_strip (body_course \<lparr>body_course = JStr ''CS101'', body_mode = JNull\<rparr>) [] = Inr ''CS101''"
    by (simp add: or_strip_def py_strip_def py_isspace_def)
  have h4: "or_strip (body_mode \<lparr>body_course = JStr ''CS101'', body_mode = JNull\<rparr>) ''general''
              = Inr ''general''"
    by (simp add: or_strip_def py_strip_def py_isspace_def)
  have h5: "''general'' \<noteq> ''course''" by simp
  have f: "fault quiet_env Set_delete_active = None \<and> fault quiet_env Set_commit = None"
    by (simp add: quiet_env_def)
  have d: "delete_active cs101_db (local_date quiet_env) = cs101_cleared_db"
    by (simp add: delete_active_def cs101_db_def cs101_cleared_db_def quiet_env_def)
  have ev: "emit_all quiet_env [Course_changed [] ''general'' (utc_now quiet_env)] =
              [Course_changed [] ''general'' ''2024-03-01T08:00:00'']"
    by (simp add: emit_all_def quiet_env_def)
  from general_mode_clears [OF h1 h2 h3 h4 h5, of quiet_env cs101_db] f
  have "set_course quiet_env admin_session \<lparr>body_course = JStr ''CS101'', body_mode = JNull\<rparr> cs101_db =
     (Updated ''CS101'' ''general'', delete_active cs101_db (local_date quiet_env),
      emit_all quiet_env [Course_changed [] ''general'' (utc_now quiet_env)])"
    by blast
  with d ev h1 h2 h3 h4 h5 f show ?thesis by simp
qed

text \<open>
  Requests whose mode is not the string \<^verbatim>\<open>course\<close> and that are not treated as general
  mode. The mode \<^verbatim>\<open>" course "\<close> is stripped to \<^verbatim>\<open>course\<close>: the handler runs course mode,
  and the active course of the day stays. A mode, or a course, that is truthy and no
  string (a number, say) has no \<^verbatim>\<open>strip\<close>: the handler raises \<^verbatim>\<open>AttributeError\<close>
  before its \<^verbatim>\<open>try\<close>, the answer is 500 and nothing is deleted.
\<close>

theorem padded_course_mode:
  "JStr '' course '' \<noteq> JStr ''course'' \<and>
   set_course quiet_env admin_session
       \<lparr>body_course = JStr ''CS101'', body_mode = JStr '' course ''\<rparr> cs101_db =
     (Updated ''CS101'' ''course'', cs101_db,
      [Course_changed ''CS101'' ''course'' ''2024-03-01T08:00:00'']) \<and>
   select_active cs101_db (local_date quiet_env) = Some (1, ''CS101'') \<and>
   set_course quiet_env admin_session
       \<lparr>body_course = JStr ''CS101'', body_mode = JOther True\<rparr> cs101_db =
     (Unhandled Attribute_error, cs101_db, []) \<and>
   set_course quiet_env admin_session
       \<lparr>body_course = JOther True, body_mode = JStr ''general''\<rparr> cs101_db =
     (Unhandled Attribute_error, cs101_db, []) \<and>
   set_status (Unhandled Attribute_error) = 500"
  by (simp add: set_eval quiet_env_def cs101_db_def admin_session_def select_active_def
        active_joined_def)

text \<open>
  Claim C6. The course \<^verbatim>\<open>" cs101 "\<close> is resolved to the existing course CS101, whose
  row for today exists: nothing is inserted. In general mode the rows of today are
  deleted (here there is none for 2 March; the row of 1 March stays). A course whose
  name has an upper-case letter outside ASCII is created by the first call; for every
  later call with the same name the query
  \<^verbatim>\<open>LOWER(TRIM(course_name)) = course.lower().strip()\<close> finds no row (SQLite's \<^verbatim>\<open>LOWER\<close>
  leaves the stored letter, Python's \<^verbatim>\<open>lower\<close> converts the given one), the handler
  tries to insert the name again, the \<^verbatim>\<open>UNIQUE\<close> constraint refuses it and the answer
  is 500: the same day the call cannot be repeated, and on the next day the course
  cannot be made active.
\<close>

theorem accent_course_not_resolved:
  "set_course quiet_env admin_session
       \<lparr>body_course = JStr '' cs101 '', body_mode = JStr ''course''\<rparr> cs101_db =
     (Updated ''cs101'' ''course'', cs101_db,
      [Course_changed ''cs101'' ''course'' ''2024-03-01T08:00:00'']) \<and>
   set_course quiet_env admin_session
       \<lparr>body_course = JStr accent_course, body_mode = JStr ''course''\<rparr> empty_db =
     (Updated accent_course ''course'', accent_course_db,
      [Course_changed accent_course ''course'' ''2024-03-01T08:00:00'']) \<and>
   set_course quiet_env admin_session
       \<lparr>body_course = JStr accent_course, body_mode = JStr ''course''\<rparr> accent_course_db =
     (Set_failed Unique_course_name, accent_course_db, []) \<and>
   set_course next_day_env admin_session
       \<lparr>body_course = JStr accent_course, body_mode = JStr ''course''\<rparr> accent_course_db =
     (Set_failed Unique_course_name, accent_course_db, []) \<and>
   set_status (Set_failed Unique_course_name) = 500 \<and>
   select_active accent_course_db (local_date next_day_env) = None \<and>
   set_course next_day_env admin_session
       \<lparr>body_course = JStr ''CS101'', body_mode = JStr ''general''\<rparr> cs101_db =
     (Updated ''CS101'' ''general'', cs101_db,
      [Course_changed [] ''general'' ''2024-03-02T08:00:00''])"
  by (simp add: set_eval quiet_env_def next_day_env_def cs101_db_def empty_db_def
        admin_session_def accent_course_def accent_course_db_def select_active_def
        active_joined_def)

section \<open>The active course of the day\<close>

text \<open>The three properties of \<open>db_ok\<close> hold of the empty database and are kept by
  \<^verbatim>\<open>set_course\<close> and \<^verbatim>\<open>mark_attendance\<close>, whatever fails during the call.\<close>

lemma fold_max_ge:
  "s \<le> fold max ids (s::nat) \<and> (\<forall>x\<in>set ids. x \<le> fold max ids s)"
proof (induction ids arbitrary: s)
  case Nil
  then show ?case by simp
next
  case (Cons a ids)
  from Cons.IH [of "max a s"] show ?case by auto
qed

lemma next_rowid_gt: "x \<in> set ids \<Longrightarrow> x < next_rowid s ids"
  using fold_max_ge [of s ids] by (auto simp add: next_rowid_def less_Suc_eq_le)

lemma db_ok_empty: "db_ok empty_db"
  by (simp add: db_ok_def empty_db_def)

lemma db_ok_insert_attendance: "db_ok (insert_attendance d sid nm day tm crs) = db_ok d"
  by (simp add: db_ok_def insert_attendance_def Let_def)

lemma db_ok_delete_active: "db_ok d \<Longrightarrow> db_ok (delete_active d day)"
  by (auto simp add: db_ok_def delete_active_def sorted_wrt_map list_all_iff
        intro: sorted_wrt_filter)

lemma db_ok_insert_course:
  assumes "db_ok d" and "insert_course d cname = (cid, d1)"
  shows "db_ok d1 \<and> list_ex (\<lambda>c. crs_id c = cid) (courses d1)"
proof -
  let ?i = "next_rowid (seq_courses d) (map crs_id (courses d))"
  from assms(2) have cid: "cid = ?i"
    and d1: "d1 = d\<lparr>courses := courses d @ [\<lparr>crs_id = ?i, crs_course_name = cname\<rparr>],
                     seq_courses := ?i\<rparr>"
    by (auto simp add: insert_course_def Let_def)
  have new: "?i \<notin> set (map crs_id (courses d))"
    using next_rowid_gt [of ?i "map crs_id (courses d)" "seq_courses d"] by auto
  from assms(1) new show ?thesis
    unfolding d1 cid by (auto simp add: db_ok_def list_all_iff list_ex_iff)
qed

lemma db_ok_insert_active:
  assumes "db_ok d" and "list_ex (\<lambda>c. crs_id c = cid) (courses d)"
  shows "db_ok (insert_active d cid day)"
proof -
  have "\<forall>x\<in>set (map act_id (active_course d)).
          x < next_rowid (seq_active d) (map act_id (active_course d))"
    using next_rowid_gt by blast
  with assms show ?thesis
    by (auto simp add: db_ok_def insert_active_def Let_def sorted_wrt_append list_all_iff)
qed

lemma db_ok_resolve_course:
  assumes "db_ok d" and "resolve_course e d course = Inr (cid, d1)"
  shows "db_ok d1 \<and> list_ex (\<lambda>c. crs_id c = cid) (courses d1)"
proof (cases "find (\<lambda>c. sql_norm (crs_course_name c) = py_strip (py_lower course)) (courses d)")
  case None
  with assms(2) have "insert_course d course = (cid, d1)"
    by (auto simp add: resolve_course_def split: option.splits if_splits)
  from db_ok_insert_course [OF assms(1) this] show ?thesis .
next
  case (Some r)
  with assms(2) have "cid = crs_id r" "d1 = d"
    by (auto simp add: resolve_course_def split: option.splits)
  moreover from Some have "r \<in> set (courses d)"
    by (auto simp add: find_Some_iff)
  ultimately show ?thesis using assms(1) by (auto simp add: list_ex_iff)
qed

lemma db_ok_ensure_active:
  assumes "db_ok d" and "list_ex (\<lambda>c. crs_id c = cid) (courses d)"
    and "ensure_active e d cid day = Inr d1"
  shows "db_ok d1"
  using assms
  by (auto simp add: ensure_active_def db_ok_insert_active split: option.splits if_splits)

lemma db_ok_set_course:
  assumes "db_ok d" and "set_course e s info d = (resp, d', evs)"
  shows "db_ok d'"
proof -
  have commit: "\<And>d2 c m. db_ok d2 \<Longrightarrow> commit_course e d d2 c m = (resp, d', evs) \<Longrightarrow> db_ok d'"
    using assms(1) by (auto simp add: commit_course_def split: option.splits)
  show ?thesis
  proof (cases "d' = d")
    case True
    with assms(1) show ?thesis by simp
  next
    case False
    with assms(2) obtain course mode where
      m: "or_strip (body_course info) [] = Inr course"
         "or_strip (body_mode info) ''general'' = Inr mode"
      by (auto simp add: set_course_def split: if_splits sum.splits)
    show ?thesis
    proof (cases "mode = ''course''")
      case True
      with False assms(2) m obtain cid d1 d2 where
        r: "resolve_course e d course = Inr (cid, d1)"
        and a: "ensure_active e d1 cid (local_date e) = Inr d2"
        and c: "commit_course e d d2 course mode = (resp, d', evs)"
        by (auto simp add: set_course_def split: if_splits sum.splits prod.splits)
      from db_ok_resolve_course [OF assms(1) r] db_ok_ensure_active [OF _ _ a]
      have "db_ok d2" by blast
      from commit [OF this c] show ?thesis .
    next
      case False' : False
      with False assms(2) m have
        c: "commit_course e d (delete_active d (local_date e)) course mode = (resp, d', evs)"
        by (auto simp add: set_course_def split: if_splits option.splits)
      from commit [OF db_ok_delete_active [OF assms(1)] c] show ?thesis .
    qed
  qed
qed

lemma db_ok_mark_attendance:
  assumes "db_ok d" and "mark_attendance e d data_field = (resp, d', evs)"
  shows "db_ok d'"
proof -
  have "courses d' = courses d \<and> active_course d' = active_course d"
  proof (cases "or_strip data_field []")
    case (Inl err)
    with assms(2) show ?thesis by (simp add: mark_attendance_def)
  next
    case (Inr payload)
    show ?thesis
    proof (cases "CHR ''|'' \<in> set payload")
      case False
      with Inr assms(2) show ?thesis
        by (auto simp add: mark_attendance_def split: option.splits)
    next
      case True
      obtain sid nm where "split_payload payload = (sid, nm)"
        by (cases "split_payload payload")
      from mark_attendance_shape [OF Inr True this assms(2)] show ?thesis by blast
    qed
  qed
  with assms(1) show ?thesis by (simp add: db_ok_def)
qed

text \<open>On tables with these properties the query of the active course joins every
  \<^verbatim>\<open>active_course\<close> row of the day with exactly one course, and the row of largest id
  is the last one inserted.\<close>

lemma latest_last:
  "sorted_wrt (<) (map (\<lambda>j. act_id (fst j)) (b # js)) \<Longrightarrow> latest b js = last (b # js)"
proof (induction js arbitrary: b)
  case Nil
  then show ?case by simp
next
  case (Cons j js)
  from Cons.prems have lt: "act_id (fst b) < act_id (fst j)"
    and s: "sorted_wrt (<) (map (\<lambda>j. act_id (fst j)) (j # js))"
    by simp_all
  from lt have "latest b (j # js) = latest j js" by simp
  also from Cons.IH [OF s] have "\<dots> = last (j # js)" .
  finally show ?case by simp
qed

lemma join_one:
  "distinct (map crs_id cs) \<Longrightarrow> list_ex (\<lambda>c. crs_id c = k) cs \<Longrightarrow>
   \<exists>c. filter (\<lambda>c. crs_id c = k) cs = [c]"
proof (induction cs)
  case Nil
  then show ?case by simp
next
  case (Cons c cs)
  show ?case
  proof (cases "crs_id c = k")
    case True
    with Cons.prems(1) have "filter (\<lambda>c. crs_id c = k) cs = []"
      by (force simp add: filter_empty_conv image_iff)
    with True show ?thesis by simp
  next
    case False
    with Cons show ?thesis by simp
  qed
qed

lemma joined_fst:
  assumes "distinct (map crs_id cs)"
  shows "list_all (\<lambda>a. list_ex (\<lambda>c. crs_id c = act_course_id a) cs) as \<Longrightarrow>
     map fst (concat (map (\<lambda>a. map (\<lambda>c. (a, c)) (filter (\<lambda>c. crs_id c = act_course_id a) cs)) as))
       = as"
proof (induction as)
  case Nil
  then show ?case by simp
next
  case (Cons a as)
  from Cons.prems have "list_ex (\<lambda>c. crs_id c = act_course_id a) cs" by simp
  from join_one [OF assms this]
  obtain c where "filter (\<lambda>c. crs_id c = act_course_id a) cs = [c]" by blast
  with Cons show ?case by simp
qed

lemma joined_snd:
  "(a, c) \<in> set (active_joined d day) \<Longrightarrow> c \<in> set (courses d) \<and> crs_id c = act_course_id a"
  by (auto simp add: active_joined_def)

lemma select_active_latest:
  assumes "db_ok d"
    and "list_ex (\<lambda>a. act_active_date a = day) (active_course d)"
  shows "\<exists>c. c \<in> set (courses d) \<and>
             crs_id c = act_course_id (last (filter (\<lambda>a. act_active_date a = day) (active_course d))) \<and>
             select_active d day = Some (crs_id c, crs_course_name c)"
proof -
  let ?F = "filter (\<lambda>a. act_active_date a = day) (active_course d)"
  let ?J = "active_joined d day"
  from assms(1) have dist: "distinct (map crs_id (courses d))"
    and srt: "sorted_wrt (<) (map act_id (active_course d))"
    and fk: "list_all (\<lambda>a. list_ex (\<lambda>c. crs_id c = act_course_id a) (courses d)) (active_course d)"
    by (simp_all add: db_ok_def)
  from fk have fk': "list_all (\<lambda>a. list_ex (\<lambda>c. crs_id c = act_course_id a) (courses d)) ?F"
    by (simp add: list_all_iff)
  have fst: "map fst ?J = ?F"
    unfolding active_joined_def by (rule joined_fst [OF dist fk'])
  from assms(2) have ne: "?F \<noteq> []"
    by (simp add: list_ex_iff filter_empty_conv)
  with fst obtain j js where J: "?J = j # js" by (cases ?J) auto
  from srt have "sorted_wrt (\<lambda>a b. act_id a < act_id b) (active_course d)"
    by (simp add: sorted_wrt_map)
  then have "sorted_wrt (\<lambda>a b. act_id a < act_id b) ?F"
    by (rule sorted_wrt_filter)
  then have "sorted_wrt (<) (map act_id (map fst ?J))"
    by (simp add: fst sorted_wrt_map)
  then have "sorted_wrt (<) (map (\<lambda>j. act_id (fst j)) (j # js))"
    by (simp add: J comp_def)
  from latest_last [OF this] have l: "latest j js = last ?J" by (simp add: J)
  obtain a c where ac: "last ?J = (a, c)" by (cases "last ?J")
  from J have "last ?J \<in> set ?J" by simp
  with ac have "(a, c) \<in> set ?J" by simp
  from joined_snd [OF this] have c: "c \<in> set (courses d)" "crs_id c = act_course_id a" by simp_all
  from J have "fst (last ?J) = last (map fst ?J)" by (simp add: last_map)
  with ac fst have a: "a = last ?F" by simp
  from J l ac c have "select_active d day = Some (crs_id c, crs_course_name c)"
    by (simp add: select_active_def)
  with c a show ?thesis by blast
qed

lemma select_active_none:
  "\<not> list_ex (\<lambda>a. act_active_date a = day) (active_course d) \<Longrightarrow> select_active d day = None"
  by (simp add: select_active_def active_joined_def list_ex_iff filter_empty_conv)

text \<open>
  Claim C5. When the query does not fail: for a day without \<^verbatim>\<open>active_course\<close> row,
  \<^verbatim>\<open>get_course\<close> answers \<^verbatim>\<open>{active: false, course: "", mode: "general", course_id: null}\<close>
  (status 200); for a day with such rows, on tables as the schema and the handlers
  keep them (\<open>db_ok\<close>), it answers with the course of the last inserted row of that day:
  that course's id, its name, \<^verbatim>\<open>active: true\<close> and mode \<^verbatim>\<open>course\<close>.
\<close>

theorem get_course_latest:
  assumes "fault e Get_select_active = None"
  shows "(\<not> list_ex (\<lambda>a. act_active_date a = local_date e) (active_course d) \<longrightarrow>
            get_course e d =
              (200, \<lparr>resp_active = False, resp_course = [], resp_mode = ''general'',
                     resp_course_id = None\<rparr>)) \<and>
         (db_ok d \<and> list_ex (\<lambda>a. act_active_date a = local_date e) (active_course d) \<longrightarrow>
            (\<exists>c. c \<in> set (courses d) \<and>
                  crs_id c = act_course_id
                    (last (filter (\<lambda>a. act_active_date a = local_date e) (active_course d))) \<and>
                  get_course e d =
                    (200, \<lparr>resp_active = True, resp_course = crs_course_name c,
                           resp_mode = ''course'', resp_course_id = Some (crs_id c)\<rparr>)))"
proof -
  have none: "\<not> list_ex (\<lambda>a. act_active_date a = local_date e) (active_course d) \<longrightarrow>
            get_course e d =
              (200, \<lparr>resp_active = False, resp_course = [], resp_mode = ''general'',
                     resp_course_id = None\<rparr>)"
    using assms
    by (auto simp add: get_course_def raises_def no_active_session_def
          dest: select_active_none)
  have some: "db_ok d \<and> list_ex (\<lambda>a. act_active_date a = local_date e) (active_course d) \<longrightarrow>
            (\<exists>c. c \<in> set (courses d) \<and>
                  crs_id c = act_course_id
                    (last (filter (\<lambda>a. act_active_date a = local_date e) (active_course d))) \<and>
                  get_course e d =
                    (200, \<lparr>resp_active = True, resp_course = crs_course_name c,
                           resp_mode = ''course'', resp_course_id = Some (crs_id c)\<rparr>))"
  proof
    assume h: "db_ok d \<and> list_ex (\<lambda>a. act_active_date a = local_date e) (active_course d)"
    then have "db_ok d" and "list_ex (\<lambda>a. act_active_date a = local_date e) (active_course d)"
      by simp_all
    from select_active_latest [OF this]
    obtain c where c: "c \<in> set (courses d)"
      "crs_id c = act_course_id
         (last (filter (\<lambda>a. act_active_date a = local_date e) (active_course d)))"
      "select_active d (local_date e) = Some (crs_id c, crs_course_name c)"
      by blast
    from c(3) assms have "get_course e d =
        (200, \<lparr>resp_active = True, resp_course = crs_course_name c,
               resp_mode = ''course'', resp_course_id = Some (crs_id c)\<rparr>)"
      by (simp add: get_course_def raises_def)
    with c(1,2) show "\<exists>c. c \<in> set (courses d) \<and>
                  crs_id c = act_course_id
                    (last (filter (\<lambda>a. act_active_date a = local_date e) (active_course d))) \<and>
                  get_course e d =
                    (200, \<lparr>resp_active = True, resp_course = crs_course_name c,
                           resp_mode = ''course'', resp_course_id = Some (crs_id c)\<rparr>)"
      by blast
  qed
  from none some show ?thesis by blast
qed

theorem get_course_latest_witness:
  "fault quiet_env Get_select_active = None \<and> db_ok two_courses_db \<and>
   list_ex (\<lambda>a. act_active_date a = local_date quiet_env) (active_course two_courses_db) \<and>
   last (filter (\<lambda>a. act_active_date a = local_date quiet_env) (active_course two_courses_db)) =
     \<lparr>act_id = 2, act_course_id = 2, act_active_date = ''2024-03-01''\<rparr> \<and>
   get_course quiet_env two_courses_db =
     (200, \<lparr>resp_active = True, resp_course = ''MTH202'', resp_mode = ''course'',
            resp_course_id = Some 2\<rparr>) \<and>
   fault next_day_env Get_select_active = None \<and>
   \<not> list_ex (\<lambda>a. act_active_date a = local_date next_day_env) (active_course two_courses_db) \<and>
   get_course next_day_env two_courses_db =
     (200, \<lparr>resp_active = False, resp_course = [], resp_mode = ''general'',
            resp_course_id = None\<rparr>)"
proof -
  have f1: "fault quiet_env Get_select_active = None"
    and f2: "fault next_day_env Get_select_active = None"
    by (simp_all add: quiet_env_def next_day_env_def)
  have ok: "db_ok two_courses_db"
    by (simp add: db_ok_def two_courses_db_def)
  have ex: "list_ex (\<lambda>a. act_active_date a = local_date quiet_env) (active_course two_courses_db)"
    by (simp add: two_courses_db_def quiet_env_def)
  have la: "last (filter (\<lambda>a. act_active_date a = local_date quiet_env)
                    (active_course two_courses_db)) =
              \<lparr>act_id = 2, act_course_id = 2, act_active_date = ''2024-03-01''\<rparr>"
    by (simp add: two_courses_db_def quiet_env_def)
  have nex: "\<not> list_ex (\<lambda>a. act_active_date a = local_date next_day_env)
                  (active_course two_courses_db)"
    by (simp add: two_courses_db_def quiet_env_def next_day_env_def)
  have g1: "get_course quiet_env two_courses_db =
     (200, \<lparr>resp_active = True, resp_course = ''MTH202'', resp_mode = ''course'',
            resp_course_id = Some 2\<rparr>)"
    by (simp add: get_course_def raises_def select_active_def active_joined_def
          two_courses_db_def quiet_env_def)
  from get_course_latest [OF f2, of two_courses_db] nex
  have g2: "get_course next_day_env two_courses_db =
     (200, \<lparr>resp_active = False, resp_course = [], resp_mode = ''general'',
            resp_course_id = None\<rparr>)"
    by blast
  from f1 f2 ok ex la nex g1 g2 show ?thesis by blast
qed
end
